theory Spec2Isabelle
  imports Main
begin

section \<open>Strings, formatted messages and errors\<close>

text \<open>
  Go strings are byte sequences; \<open>string\<close> is a list of 8-bit characters.
  \<open>HasPrefix\<close>, \<open>HasSuffix\<close>, \<open>TrimPrefix\<close> and \<open>TrimSuffix\<close> follow the Go
  standard library: \<open>HasPrefix s p\<close> is \<open>len(s) >= len(p) && s[:len(p)] == p\<close>, and
  \<open>TrimPrefix\<close> removes the prefix once if it is there and returns \<open>s\<close> otherwise.
\<close>

definition HasPrefix :: "string \<Rightarrow> string \<Rightarrow> bool" where
  "HasPrefix s p = (length p \<le> length s \<and> take (length p) s = p)"

definition HasSuffix :: "string \<Rightarrow> string \<Rightarrow> bool" where
  "HasSuffix s p = (length p \<le> length s \<and> drop (length s - length p) s = p)"

definition TrimPrefix :: "string \<Rightarrow> string \<Rightarrow> string" where
  "TrimPrefix s p = (if HasPrefix s p then drop (length p) s else s)"

definition TrimSuffix :: "string \<Rightarrow> string \<Rightarrow> string" where
  "TrimSuffix s p = (if HasSuffix s p then take (length s - length p) s else s)"

text \<open>
  A value built by \<open>fmt.Sprintf\<close>, \<open>fmt.Errorf\<close> or a logger call is kept as its format
  string and its arguments; \<open>Plain\<close> is a string used as it is. A Go \<open>error\<close> is \<open>Text option\<close>: \<open>None\<close> is \<open>nil\<close>.
\<close>

datatype Arg = AStr string | AInt int | AErr Text
  and Text = Sprintf string "Arg list" | Plain string

datatype Level = DEBUG | INFO | WARN | ERROR

type_synonym LogEntry = "Level \<times> Text"

section \<open>Configuration and application state\<close>

text \<open>The fields of \<open>config.Endpoint\<close>, as the composite literals of app.go name them.\<close>

record Endpoint =
  Name :: string
  APIUrl :: string
  APIKey :: string
  Enabled :: bool
  Transformer :: string
  Model :: string
  Remark :: string

text \<open>
  The part of \<open>config.Config\<close> that the endpoint and port operations read and write
  through \<open>GetEndpoints\<close>, \<open>UpdateEndpoints\<close> and \<open>UpdatePort\<close>; these accessors are
  field reads and field updates here.
\<close>

record Config =
  Port :: int
  Endpoints :: "Endpoint list"

text \<open>
  \<open>App\<close> holds the configuration and the proxy. The proxy's own state (its listener,
  its statistics store, its shared HTTP client) is of a type \<open>'p\<close> that app.go never
  looks into. \<open>disk\<close> is the state of the file system that \<open>Save\<close> writes, and
  \<open>logbuf\<close> the entries handed to the process-wide logger, oldest first (whether the
  logger keeps an entry depends on its minimum level, which is not modelled).
\<close>

record ('p, 'f) App =
  config :: Config
  proxy :: 'p
  configPath :: string
  disk :: 'f
  logbuf :: "LogEntry list"

text \<open>
  The methods of the packages \<open>config\<close> and \<open>proxy\<close> that the operations call and whose
  bodies are not part of app.go are parameters: \<open>Validate\<close> is \<open>(*Config).Validate\<close>,
  \<open>ProxyUpdateConfig\<close> is \<open>(*Proxy).UpdateConfig\<close>, which may change the proxy and may
  fail, and \<open>Save\<close> is \<open>(*Config).Save\<close> for a path.
\<close>

record ('p, 'f) Deps =
  Validate :: "Config \<Rightarrow> Text option"
  ProxyUpdateConfig :: "Config \<Rightarrow> 'p \<Rightarrow> Text option \<times> 'p"
  Save :: "string \<Rightarrow> Config \<Rightarrow> 'f \<Rightarrow> Text option \<times> 'f"

definition logf :: "Level \<Rightarrow> string \<Rightarrow> Arg list \<Rightarrow> ('p, 'f) App \<Rightarrow> ('p, 'f) App" where
  "logf lvl fmt args a = a\<lparr>logbuf := logbuf a @ [(lvl, Sprintf fmt args)]\<rparr>"

section \<open>Endpoint operations of app.go\<close>

definition normalizeAPIUrl :: "string \<Rightarrow> string" where
  "normalizeAPIUrl apiUrl =
     (let apiUrl = TrimPrefix apiUrl ''https://'';
          apiUrl = TrimPrefix apiUrl ''http://'';
          apiUrl = TrimSuffix apiUrl ''/''
      in apiUrl)"

text \<open>
  The common tail of the endpoint operations: \<open>a.proxy.UpdateConfig(a.config)\<close>, with an
  early return of its error, then the log line, then \<open>a.config.Save(a.configPath)\<close>,
  whose error is the result.
\<close>

definition updateProxyAndSave ::
  "('p, 'f) Deps \<Rightarrow> LogEntry \<Rightarrow> ('p, 'f) App \<Rightarrow> Text option \<times> ('p, 'f) App" where
  "updateProxyAndSave d entry a =
     (case ProxyUpdateConfig d (config a) (proxy a) of
        (Some err, p) \<Rightarrow> (Some err, a\<lparr>proxy := p\<rparr>)
      | (None, p) \<Rightarrow>
          (let a1 = a\<lparr>proxy := p, logbuf := logbuf a @ [entry]\<rparr>
           in case Save d (configPath a1) (config a1) (disk a1) of
                (r, f) \<Rightarrow> (r, a1\<lparr>disk := f\<rparr>)))"

definition UpdateEndpoints :: "Endpoint list \<Rightarrow> ('p, 'f) App \<Rightarrow> ('p, 'f) App" where
  "UpdateEndpoints eps a = a\<lparr>config := (config a)\<lparr>Endpoints := eps\<rparr>\<rparr>"

definition AddEndpoint ::
  "('p, 'f) Deps \<Rightarrow> string \<Rightarrow> string \<Rightarrow> string \<Rightarrow> string \<Rightarrow> string \<Rightarrow> string \<Rightarrow>
   ('p, 'f) App \<Rightarrow> Text option \<times> ('p, 'f) App" where
  "AddEndpoint d name apiUrl apiKey transformer model remark a =
     (let transformer = (if transformer = [] then ''claude'' else transformer);
          apiUrl = normalizeAPIUrl apiUrl;
          endpoints = Endpoints (config a) @
            [\<lparr>Name = name, APIUrl = apiUrl, APIKey = apiKey, Enabled = True,
              Transformer = transformer, Model = model, Remark = remark\<rparr>];
          a1 = UpdateEndpoints endpoints a
      in case Validate d (config a1) of
           Some err \<Rightarrow> (Some err, a1)
         | None \<Rightarrow>
             updateProxyAndSave d
               (INFO, if model \<noteq> []
                      then Sprintf ''Endpoint added: %s (%s) [%s/%s]''
                             [AStr name, AStr apiUrl, AStr transformer, AStr model]
                      else Sprintf ''Endpoint added: %s (%s) [%s]''
                             [AStr name, AStr apiUrl, AStr transformer])
               a1)"

definition invalidIndex :: "int \<Rightarrow> Text" where
  "invalidIndex index = Sprintf ''invalid endpoint index: %d'' [AInt index]"

definition RemoveEndpoint ::
  "('p, 'f) Deps \<Rightarrow> int \<Rightarrow> ('p, 'f) App \<Rightarrow> Text option \<times> ('p, 'f) App" where
  "RemoveEndpoint d index a =
     (let endpoints = Endpoints (config a)
      in if index < 0 \<or> index \<ge> int (length endpoints) then (Some (invalidIndex index), a)
         else
           (let removedName = Name (endpoints ! nat index);
                endpoints = take (nat index) endpoints @ drop (nat index + 1) endpoints;
                a1 = UpdateEndpoints endpoints a
            in case (if length endpoints > 0 then Validate d (config a1) else None) of
                 Some err \<Rightarrow> (Some err, a1)
               | None \<Rightarrow>
                   updateProxyAndSave d
                     (INFO, Sprintf ''Endpoint removed: %s'' [AStr removedName]) a1))"

text \<open>The arrow of the rename log line is the three UTF-8 bytes E2 86 92.\<close>

definition arrow :: string where
  "arrow = [CHR 0xE2, CHR 0x86, CHR 0x92]"

definition UpdateEndpoint ::
  "('p, 'f) Deps \<Rightarrow> int \<Rightarrow> string \<Rightarrow> string \<Rightarrow> string \<Rightarrow> string \<Rightarrow> string \<Rightarrow> string \<Rightarrow>
   ('p, 'f) App \<Rightarrow> Text option \<times> ('p, 'f) App" where
  "UpdateEndpoint d index name apiUrl apiKey transformer model remark a =
     (let endpoints = Endpoints (config a)
      in if index < 0 \<or> index \<ge> int (length endpoints) then (Some (invalidIndex index), a)
         else
           (let oldName = Name (endpoints ! nat index);
                enabled = Enabled (endpoints ! nat index);
                transformer = (if transformer = [] then ''claude'' else transformer);
                apiUrl = normalizeAPIUrl apiUrl;
                endpoints = endpoints[nat index :=
                  \<lparr>Name = name, APIUrl = apiUrl, APIKey = apiKey, Enabled = enabled,
                    Transformer = transformer, Model = model, Remark = remark\<rparr>];
                a1 = UpdateEndpoints endpoints a
            in case Validate d (config a1) of
                 Some err \<Rightarrow> (Some err, a1)
               | None \<Rightarrow>
                   updateProxyAndSave d
                     (INFO,
                      if oldName \<noteq> name then
                        (if model \<noteq> []
                         then Sprintf (''Endpoint updated: %s '' @ arrow @ '' %s (%s) [%s/%s]'')
                                [AStr oldName, AStr name, AStr apiUrl, AStr transformer, AStr model]
                         else Sprintf (''Endpoint updated: %s '' @ arrow @ '' %s (%s) [%s]'')
                                [AStr oldName, AStr name, AStr apiUrl, AStr transformer])
                      else
                        (if model \<noteq> []
                         then Sprintf ''Endpoint updated: %s (%s) [%s/%s]''
                                [AStr name, AStr apiUrl, AStr transformer, AStr model]
                         else Sprintf ''Endpoint updated: %s (%s) [%s]''
                                [AStr name, AStr apiUrl, AStr transformer]))
                     a1))"

definition UpdatePort ::
  "('p, 'f) Deps \<Rightarrow> int \<Rightarrow> ('p, 'f) App \<Rightarrow> Text option \<times> ('p, 'f) App" where
  "UpdatePort d port a =
     (if port < 1 \<or> port > 65535 then (Some (Sprintf ''invalid port: %d'' [AInt port]), a)
      else
        (let a1 = a\<lparr>config := (config a)\<lparr>Port := port\<rparr>\<rparr>
         in case Save d (configPath a1) (config a1) (disk a1) of
              (r, f) \<Rightarrow> (r, a1\<lparr>disk := f\<rparr>)))"

definition ToggleEndpoint ::
  "('p, 'f) Deps \<Rightarrow> int \<Rightarrow> bool \<Rightarrow> ('p, 'f) App \<Rightarrow> Text option \<times> ('p, 'f) App" where
  "ToggleEndpoint d index enabled a =
     (let endpoints = Endpoints (config a)
      in if index < 0 \<or> index \<ge> int (length endpoints) then (Some (invalidIndex index), a)
         else
           (let endpointName = Name (endpoints ! nat index);
                endpoints = endpoints[nat index := (endpoints ! nat index)\<lparr>Enabled := enabled\<rparr>];
                a1 = UpdateEndpoints endpoints a
            in updateProxyAndSave d
                 (INFO, if enabled then Sprintf ''Endpoint enabled: %s'' [AStr endpointName]
                        else Sprintf ''Endpoint disabled: %s'' [AStr endpointName])
                 a1))"

section \<open>The connection test of app.go\<close>

text \<open>
  JSON values. A request body is kept as the value handed to \<open>json.Marshal\<close>, a parsed
  response as the value \<open>json.Unmarshal\<close> produced; an object is an association list
  read with \<open>map_of\<close>.
\<close>

datatype JSON = JNull | JBool bool | JNum int | JStr string | JArr "JSON list"
  | JObj "(string \<times> JSON) list"

text \<open>
  An \<open>http.Request\<close> as TestEndpoint builds it: the URL string given to
  \<open>http.NewRequest\<close>, the headers set with \<open>Header.Set\<close> (names as the source writes
  them; HTTP compares them without regard to case), and the parameters that \<open>q.Add\<close>
  appends to the query of the URL.
\<close>

record Request =
  Method :: string
  URL :: string
  Header :: "string \<rightharpoonup> string"
  QueryAdd :: "(string \<times> string) list"
  Body :: JSON

text \<open>\<open>Timeout\<close> is a \<open>time.Duration\<close>, a number of nanoseconds.\<close>

record Client =
  Timeout :: int

definition Second :: int where
  "Second = 1000000000"

text \<open>A response: its status code and what \<open>io.ReadAll(resp.Body)\<close> returns.\<close>

record Response =
  StatusCode :: int
  ReadAll :: "Text + string"

text \<open>
  The library calls of the connection test are parameters: the error of
  \<open>http.NewRequest\<close> for a URL string, \<open>(*http.Client).Do\<close> for a client and a request,
  and \<open>json.Unmarshal\<close> into a \<open>map[string]interface{}\<close>, \<open>None\<close> when it fails.
\<close>

record Http =
  NewRequestErr :: "string \<Rightarrow> Text option"
  ClientDo :: "Client \<Rightarrow> Request \<Rightarrow> Text + Response"
  Unmarshal :: "string \<Rightarrow> (string \<times> JSON) list option"

text \<open>The result map of TestEndpoint, before it is marshalled to a JSON string.\<close>

record TestResult =
  success :: bool
  message :: Text

definition testMessage :: string where
  "testMessage = [CHR 0xE4, CHR 0xBD, CHR 0xA0, CHR 0xE6, CHR 0x98, CHR 0xAF, CHR 0xE4,
     CHR 0xBB, CHR 0x80, CHR 0xE4, CHR 0xB9, CHR 0x88, CHR 0xE6, CHR 0xA8, CHR 0xA1,
     CHR 0xE5, CHR 0x9E, CHR 0x8B, CHR 0x3F]"

definition testMaxTokens :: int where
  "testMaxTokens = 16"

text \<open>
  The first \<open>switch\<close> of TestEndpoint: the API path and the request body for a
  transformer, \<open>None\<close> in the \<open>default\<close> case. \<open>json.Marshal\<close> cannot fail on these
  values, so the branch for its error is never taken.
\<close>

definition testPathAndBody :: "string \<Rightarrow> Endpoint \<Rightarrow> (string \<times> JSON) option" where
  "testPathAndBody transformer endpoint =
     (if transformer = ''claude'' then
        (let model = (if Model endpoint = [] then ''claude-sonnet-4-5-20250929''
                      else Model endpoint)
         in Some (''/v1/messages'',
              JObj [(''model'', JStr model), (''max_tokens'', JNum testMaxTokens),
                    (''messages'', JArr [JObj [(''role'', JStr ''user''),
                                               (''content'', JStr testMessage)]])]))
      else if transformer = ''openai'' then
        (let model = (if Model endpoint = [] then ''gpt-4-turbo'' else Model endpoint)
         in Some (''/v1/chat/completions'',
              JObj [(''model'', JStr model), (''max_tokens'', JNum testMaxTokens),
                    (''messages'', JArr [JObj [(''role'', JStr ''user''),
                                               (''content'', JStr testMessage)]])]))
      else if transformer = ''gemini'' then
        (let model = (if Model endpoint = [] then ''gemini-pro'' else Model endpoint)
         in Some (''/v1beta/models/'' @ model @ '':generateContent'',
              JObj [(''contents'', JArr [JObj [(''parts'',
                       JArr [JObj [(''text'', JStr testMessage)]])]]),
                    (''generationConfig'', JObj [(''maxOutputTokens'', JNum testMaxTokens)])]))
      else None)"

definition effectiveTransformer :: "Endpoint \<Rightarrow> string" where
  "effectiveTransformer endpoint =
     (if Transformer endpoint = [] then ''claude'' else Transformer endpoint)"

text \<open>
  The part of TestEndpoint that builds the outbound request: path and body, the URL with
  the forced scheme, \<open>http.NewRequest\<close>, then the headers and the query parameter chosen
  by the transformer. \<open>Inl\<close> is the message of a failure result.
\<close>

definition buildTestRequest :: "Http \<Rightarrow> Endpoint \<Rightarrow> Text + Request" where
  "buildTestRequest h endpoint =
     (let transformer = effectiveTransformer endpoint
      in case testPathAndBody transformer endpoint of
           None \<Rightarrow> Inl (Sprintf ''Unsupported transformer: %s'' [AStr transformer])
         | Some (apiPath, requestBody) \<Rightarrow>
             (let url = ''https://'' @ APIUrl endpoint @ apiPath
              in case NewRequestErr h url of
                   Some err \<Rightarrow> Inl (Sprintf ''Failed to create request: %v'' [AErr err])
                 | None \<Rightarrow>
                     (let req = \<lparr>Method = ''POST'', URL = url,
                                 Header = [''Content-Type'' \<mapsto> ''application/json''],
                                 QueryAdd = [], Body = requestBody\<rparr>
                      in Inr
                        (if transformer = ''claude'' then
                           req\<lparr>Header := (Header req)(''x-api-key'' \<mapsto> APIKey endpoint,
                                                      ''anthropic-version'' \<mapsto> ''2023-06-01'')\<rparr>
                         else if transformer = ''openai'' then
                           req\<lparr>Header := (Header req)(''Authorization'' \<mapsto>
                                                      ''Bearer '' @ APIKey endpoint)\<rparr>
                         else if transformer = ''gemini'' then
                           req\<lparr>QueryAdd := QueryAdd req @ [(''key'', APIKey endpoint)]\<rparr>
                         else req))))"

text \<open>The client that TestEndpoint creates for its one request.\<close>

definition testClient :: Client where
  "testClient = \<lparr>Timeout = 30 * Second\<rparr>"

text \<open>
  The last \<open>switch\<close> of TestEndpoint: the text of the first content block, choice or
  candidate part of a parsed response, the empty string when a type assertion fails.
\<close>

definition extractMessage :: "string \<Rightarrow> (string \<times> JSON) list \<Rightarrow> string" where
  "extractMessage transformer responseData =
     (if transformer = ''claude'' then
        (case map_of responseData ''content'' of
           Some (JArr (JObj textBlock # _)) \<Rightarrow>
             (case map_of textBlock ''text'' of Some (JStr text) \<Rightarrow> text | _ \<Rightarrow> [])
         | _ \<Rightarrow> [])
      else if transformer = ''openai'' then
        (case map_of responseData ''choices'' of
           Some (JArr (JObj choice # _)) \<Rightarrow>
             (case map_of choice ''message'' of
                Some (JObj msg) \<Rightarrow>
                  (case map_of msg ''content'' of Some (JStr content) \<Rightarrow> content | _ \<Rightarrow> [])
              | _ \<Rightarrow> [])
         | _ \<Rightarrow> [])
      else if transformer = ''gemini'' then
        (case map_of responseData ''candidates'' of
           Some (JArr (JObj candidate # _)) \<Rightarrow>
             (case map_of candidate ''content'' of
                Some (JObj content) \<Rightarrow>
                  (case map_of content ''parts'' of
                     Some (JArr (JObj part # _)) \<Rightarrow>
                       (case map_of part ''text'' of Some (JStr text) \<Rightarrow> text | _ \<Rightarrow> [])
                   | _ \<Rightarrow> [])
              | _ \<Rightarrow> [])
         | _ \<Rightarrow> [])
      else [])"

text \<open>
  TestEndpoint after the request has been built: the request is sent with the test's
  own client, the response is read, its status checked and its text extracted.
\<close>

definition sendTestRequest ::
  "Http \<Rightarrow> Endpoint \<Rightarrow> Request \<Rightarrow> ('p, 'f) App \<Rightarrow> TestResult \<times> ('p, 'f) App" where
  "sendTestRequest h endpoint req a =
     (case ClientDo h testClient req of
        Inl err \<Rightarrow>
          (\<lparr>success = False, message = Sprintf ''Request failed: %v'' [AErr err]\<rparr>,
           logf ERROR ''Test failed for %s: %v'' [AStr (Name endpoint), AErr err] a)
      | Inr resp \<Rightarrow>
          (case ReadAll resp of
             Inl err \<Rightarrow>
               (\<lparr>success = False,
                 message = Sprintf ''Failed to read response: %v'' [AErr err]\<rparr>, a)
           | Inr respBody \<Rightarrow>
               (if StatusCode resp \<noteq> 200 then
                  (\<lparr>success = False,
                    message = Sprintf ''HTTP %d: %s'' [AInt (StatusCode resp), AStr respBody]\<rparr>,
                   logf ERROR ''Test failed for %s: HTTP %d''
                     [AStr (Name endpoint), AInt (StatusCode resp)] a)
                else
                  (case Unmarshal h respBody of
                     None \<Rightarrow>
                       (\<lparr>success = True, message = Plain respBody\<rparr>,
                        logf INFO ''Test successful for %s'' [AStr (Name endpoint)] a)
                   | Some responseData \<Rightarrow>
                       (let message = extractMessage (effectiveTransformer endpoint) responseData;
                            message = (if message = [] then respBody else message)
                        in (\<lparr>success = True, message = Plain message\<rparr>,
                            logf INFO ''Test successful for %s'' [AStr (Name endpoint)] a))))))"

definition TestEndpoint :: "Http \<Rightarrow> int \<Rightarrow> ('p, 'f) App \<Rightarrow> TestResult \<times> ('p, 'f) App" where
  "TestEndpoint h index a =
     (let endpoints = Endpoints (config a)
      in if index < 0 \<or> index \<ge> int (length endpoints) then
           (\<lparr>success = False,
             message = Sprintf ''Invalid endpoint index: %d'' [AInt index]\<rparr>, a)
         else
           (let endpoint = endpoints ! nat index;
                a1 = logf INFO ''Testing endpoint: %s (%s)''
                       [AStr (Name endpoint), AStr (APIUrl endpoint)] a
            in case buildTestRequest h endpoint of
                 Inl msg \<Rightarrow> (\<lparr>success = False, message = msg\<rparr>, a1)
               | Inr req \<Rightarrow> sendTestRequest h endpoint req a1))"

section \<open>Process entry point\<close>











section \<open>Statistics store\<close>

text \<open>
  Modelled from the spec: the statistics store of package \<open>proxy\<close>, of which app.go
  and the front end are only callers. The record and the three recording operations are
  those of sections 3 and 4.2 of the specification. The counters are \<open>u64\<close> there and are said
  only to increase, so they are counted in \<open>nat\<close>.
\<close>

record EndpointStat =
  requests :: nat
  errors :: nat
  inputTokens :: nat
  outputTokens :: nat
  lastUsed :: nat

type_synonym Stats = "string \<rightharpoonup> EndpointStat"

definition statOf :: "Stats \<Rightarrow> string \<Rightarrow> EndpointStat" where
  "statOf s name =
     (case s name of
        None \<Rightarrow> \<lparr>requests = 0, errors = 0, inputTokens = 0, outputTokens = 0, lastUsed = 0\<rparr>
      | Some e \<Rightarrow> e)"

definition RecordAttempt :: "string \<Rightarrow> nat \<Rightarrow> Stats \<Rightarrow> Stats" where
  "RecordAttempt name now s =
     s(name \<mapsto> (statOf s name)\<lparr>requests := requests (statOf s name) + 1, lastUsed := now\<rparr>)"

definition RecordTokens :: "string \<Rightarrow> nat \<Rightarrow> nat \<Rightarrow> Stats \<Rightarrow> Stats" where
  "RecordTokens name i out s =
     s(name \<mapsto> (statOf s name)\<lparr>inputTokens := inputTokens (statOf s name) + i,
                                outputTokens := outputTokens (statOf s name) + out\<rparr>)"

definition RecordError :: "string \<Rightarrow> Stats \<Rightarrow> Stats" where
  "RecordError name s = s(name \<mapsto> (statOf s name)\<lparr>errors := errors (statOf s name) + 1\<rparr>)"

text \<open>
  Modelled from the spec: the order in which the engine calls the store (sections 4.2
  and 4.4). An attempt against an upstream records the attempt first and ends in exactly
  one of three ways: with an error, with tokens, or abandoned when the client has gone.
  \<open>inflight\<close> counts, for each name, the attempts recorded and not yet ended. A
  restart saves the store and loads it again with no attempt in flight; a restart that
  finds the saved file missing or malformed begins with the empty store.
\<close>

record Engine =
  stats :: Stats
  inflight :: "string \<Rightarrow> nat"

datatype Event = Attempt string nat | Failed string | Succeeded string nat nat
  | Abandoned string | Restarted | RestartedEmpty

definition engine0 :: Engine where
  "engine0 = \<lparr>stats = Map.empty, inflight = (\<lambda>_. 0)\<rparr>"

fun step :: "Event \<Rightarrow> Engine \<Rightarrow> Engine option" where
  "step (Attempt u now) e =
     Some (e\<lparr>stats := RecordAttempt u now (stats e),
             inflight := (inflight e)(u := inflight e u + 1)\<rparr>)"
| "step (Failed u) e =
     (if inflight e u = 0 then None
      else Some (e\<lparr>stats := RecordError u (stats e),
                   inflight := (inflight e)(u := inflight e u - 1)\<rparr>))"
| "step (Succeeded u i out) e =
     (if inflight e u = 0 then None
      else Some (e\<lparr>stats := RecordTokens u i out (stats e),
                   inflight := (inflight e)(u := inflight e u - 1)\<rparr>))"
| "step (Abandoned u) e =
     (if inflight e u = 0 then None
      else Some (e\<lparr>inflight := (inflight e)(u := inflight e u - 1)\<rparr>))"
| "step Restarted e = Some (e\<lparr>inflight := (\<lambda>_. 0)\<rparr>)"
| "step RestartedEmpty e = Some engine0"

fun run :: "Event list \<Rightarrow> Engine \<Rightarrow> Engine option" where
  "run [] e = Some e"
| "run (ev # evs) e = (case step ev e of None \<Rightarrow> None | Some e' \<Rightarrow> run evs e')"

text \<open>
  The totals that \<open>loadStats\<close> of the front end computes from the statistics of the
  endpoints (\<open>Object.values(stats.endpoints)\<close>), one loop iteration per endpoint.
\<close>

record Totals =
  totalSuccess :: int
  totalFailed :: int
  totalInputTokens :: int
  totalOutputTokens :: int

definition addStats :: "EndpointStat \<Rightarrow> Totals \<Rightarrow> Totals" where
  "addStats epStats t =
     t\<lparr>totalSuccess := totalSuccess t + (int (requests epStats) - int (errors epStats)),
       totalFailed := totalFailed t + int (errors epStats),
       totalInputTokens := totalInputTokens t + int (inputTokens epStats),
       totalOutputTokens := totalOutputTokens t + int (outputTokens epStats)\<rparr>"

definition loadStats :: "EndpointStat list \<Rightarrow> Totals" where
  "loadStats eps =
     fold addStats eps
       \<lparr>totalSuccess = 0, totalFailed = 0, totalInputTokens = 0, totalOutputTokens = 0\<rparr>"

section \<open>Pool and listener\<close>

text \<open>
  Modelled from the spec: the check of \<open>Pool.Replace\<close> (section 4.1), which rejects a
  list with a repeated name, with an empty name, or with an upstream of a kind other
  than claude that has no default model, and accepts every other list.
\<close>

definition Replace :: "Endpoint list \<Rightarrow> Text option" where
  "Replace eps =
     (if \<not> distinct (map Name eps)
         \<or> list_ex (\<lambda>e. Name e = []) eps
         \<or> list_ex (\<lambda>e. Transformer e \<noteq> [] \<and> Transformer e \<noteq> ''claude'' \<and> Model e = []) eps
      then Some (Plain ''InvalidPool'') else None)"

text \<open>
  Modelled from the spec: the listener of package \<open>proxy\<close> (section 4.5), reduced to the
  port it is bound to. \<open>ReloadPort\<close> leaves it bound to the new port.
\<close>

record Listener =
  boundPort :: int

definition ReloadPort :: "int \<Rightarrow> Listener \<Rightarrow> Listener" where
  "ReloadPort newPort l = l\<lparr>boundPort := newPort\<rparr>"

text \<open>
  Modelled from the spec: the proxy's own state as far as the specification names it,
  its listener and its statistics store.
\<close>

record ProxyState =
  listener :: Listener
  statistics :: Stats

section \<open>The host as the specification words it\<close>

text \<open>
  The reading of "any leading \<open>http://\<close> or \<open>https://\<close> scheme prefix stripped": one
  scheme prefix is removed when the string begins with one.
\<close>

definition hasScheme :: "string \<Rightarrow> bool" where
  "hasScheme s = (HasPrefix s ''http://'' \<or> HasPrefix s ''https://'')"

definition stripScheme :: "string \<Rightarrow> string" where
  "stripScheme s =
     (if HasPrefix s ''https://'' then TrimPrefix s ''https://'' else TrimPrefix s ''http://'')"

section \<open>Example states\<close>

definition epA :: Endpoint where
  "epA = \<lparr>Name = ''A'', APIUrl = ''api.anthropic.com'', APIKey = ''sk-a'', Enabled = True,
           Transformer = [], Model = [], Remark = []\<rparr>"

definition epB :: Endpoint where
  "epB = \<lparr>Name = ''B'', APIUrl = ''api.openai.com'', APIKey = ''sk-b'', Enabled = False,
           Transformer = ''openai'', Model = ''gpt-4o'', Remark = ''backup''\<rparr>"

definition epC :: Endpoint where
  "epC = \<lparr>Name = ''C'', APIUrl = ''generativelanguage.googleapis.com'', APIKey = ''sk-c'',
           Enabled = True, Transformer = ''gemini'', Model = ''gemini-1.5-pro'', Remark = []\<rparr>"

text \<open>
  Collaborators for the examples: a validation that rejects an empty endpoint list, a
  proxy that accepts the lists that \<open>Replace\<close> accepts, and a file system that holds
  the last configuration saved.
\<close>

definition exDeps :: "(ProxyState, Config option) Deps" where
  "exDeps = \<lparr>Validate = (\<lambda>c. if Endpoints c = [] then Some (Plain ''no endpoints configured'')
                                else None),
             ProxyUpdateConfig = (\<lambda>c p. (Replace (Endpoints c), p)),
             Save = (\<lambda>path c f. (None, Some c))\<rparr>"

definition exProxy :: ProxyState where
  "exProxy = \<lparr>listener = \<lparr>boundPort = 3000\<rparr>,
              statistics = RecordError ''A'' (RecordAttempt ''A'' 1 Map.empty)\<rparr>"

definition exApp :: "(ProxyState, Config option) App" where
  "exApp = \<lparr>config = \<lparr>Port = 3000, Endpoints = [epA, epB, epC]\<rparr>, proxy = exProxy,
            configPath = ''config.json'', disk = None, logbuf = []\<rparr>"

definition exAppSingle :: "(ProxyState, Config option) App" where
  "exAppSingle = \<lparr>config = \<lparr>Port = 3000, Endpoints = [epA]\<rparr>, proxy = exProxy,
                  configPath = ''config.json'', disk = None, logbuf = []\<rparr>"

text \<open>An upstream that answers every request with status 200 and a Claude message.\<close>

definition exHttp :: Http where
  "exHttp = \<lparr>NewRequestErr = (\<lambda>url. None),
             ClientDo = (\<lambda>c req. Inr \<lparr>StatusCode = 200, ReadAll = Inr ''{...}''\<rparr>),
             Unmarshal = (\<lambda>body. Some [(''content'', JArr [JObj [(''type'', JStr ''text''),
                                                                (''text'', JStr ''hello'')]])])\<rparr>"



text \<open>An upstream that the test's own client cannot reach, whatever other clients get.\<close>

definition exHttpDown :: Http where
  "exHttpDown = exHttp\<lparr>ClientDo := (\<lambda>c req. if c = testClient
                   then Inl (Plain ''context deadline exceeded'')
                   else Inr \<lparr>StatusCode = 200, ReadAll = Inr ''{...}''\<rparr>)\<rparr>"

definition exEvents :: "Event list" where
  "exEvents = [Attempt ''A'' 1, Failed ''A'', Attempt ''B'' 2, Attempt ''A'' 3,
               Succeeded ''B'' 3 1, Restarted, Attempt ''A'' 4, Failed ''A'']"

section \<open>Facts about the string helpers\<close>

lemma HasPrefix_iff: "HasPrefix s p \<longleftrightarrow> (\<exists>ys. s = p @ ys)"
proof
  assume "HasPrefix s p"
  then have "s = p @ drop (length p) s"
    by (metis HasPrefix_def append_take_drop_id)
  then show "\<exists>ys. s = p @ ys" ..
next
  assume "\<exists>ys. s = p @ ys"
  then show "HasPrefix s p" by (auto simp: HasPrefix_def)
qed

lemma HasSuffix_iff: "HasSuffix s p \<longleftrightarrow> (\<exists>xs. s = xs @ p)"
proof
  assume "HasSuffix s p"
  then have "s = take (length s - length p) s @ p"
    by (metis HasSuffix_def append_take_drop_id)
  then show "\<exists>xs. s = xs @ p" ..
next
  assume "\<exists>xs. s = xs @ p"
  then show "HasSuffix s p" by (auto simp: HasSuffix_def)
qed

lemma TrimPrefix_append: "TrimPrefix (p @ ys) p = ys"
  by (simp add: TrimPrefix_def HasPrefix_def)

lemma TrimSuffix_append: "TrimSuffix (xs @ p) p = xs"
  by (simp add: TrimSuffix_def HasSuffix_def)

lemma TrimPrefix_cases:
  obtains (stripped) ys where "s = p @ ys" "TrimPrefix s p = ys"
  | (kept) "\<not> HasPrefix s p" "TrimPrefix s p = s"
  by (metis HasPrefix_iff TrimPrefix_append TrimPrefix_def)

lemma TrimSuffix_cases:
  obtains (stripped) xs where "s = xs @ p" "TrimSuffix s p = xs"
  | (kept) "\<not> HasSuffix s p" "TrimSuffix s p = s"
  by (metis HasSuffix_iff TrimSuffix_append TrimSuffix_def)

lemma HasPrefix_TrimSuffix: "HasPrefix (TrimSuffix s q) p \<Longrightarrow> HasPrefix s p"
  by (cases s q rule: TrimSuffix_cases) (auto simp: HasPrefix_iff)

lemma HasSuffix_TrimPrefix: "HasSuffix (TrimPrefix s q) p \<Longrightarrow> HasSuffix s p"
  by (cases s q rule: TrimPrefix_cases) (auto simp: HasSuffix_iff)

lemma no_slash_after_TrimSuffix:
  assumes "\<not> HasSuffix t ''//''"
  shows "\<not> HasSuffix (TrimSuffix t ''/'') ''/''"
proof (cases t "''/''" rule: TrimSuffix_cases)
  case (stripped xs)
  show ?thesis
  proof
    assume "HasSuffix (TrimSuffix t ''/'') ''/''"
    then obtain zs where "xs = zs @ ''/''" using stripped by (auto simp: HasSuffix_iff)
    then have "t = zs @ ''//''" using stripped by simp
    then show False using assms by (auto simp: HasSuffix_iff)
  qed
next
  case kept
  then show ?thesis by simp
qed

section \<open>Facts about the host normalisation\<close>

lemma prefixes_eq_stripScheme:
  assumes "\<not> hasScheme (stripScheme s)"
  shows "TrimPrefix (TrimPrefix s ''https://'') ''http://'' = stripScheme s"
proof (cases "HasPrefix s ''https://''")
  case True
  then have "TrimPrefix s ''https://'' = stripScheme s"
    by (simp add: stripScheme_def)
  moreover have "\<not> HasPrefix (stripScheme s) ''http://''"
    using assms by (simp add: hasScheme_def)
  ultimately show ?thesis by (simp add: TrimPrefix_def)
next
  case False
  then show ?thesis by (simp add: TrimPrefix_def stripScheme_def)
qed

lemma normalize_as_worded:
  assumes "\<not> hasScheme (stripScheme s)"
  shows "normalizeAPIUrl s = TrimSuffix (stripScheme s) ''/''"
  using prefixes_eq_stripScheme[OF assms] by (simp add: normalizeAPIUrl_def)

lemma normalize_no_scheme:
  assumes "\<not> hasScheme (stripScheme s)"
  shows "\<not> hasScheme (normalizeAPIUrl s)"
  using assms normalize_as_worded[OF assms] HasPrefix_TrimSuffix
  unfolding hasScheme_def by metis

lemma normalize_no_slash:
  assumes "\<not> HasSuffix s ''//''"
  shows "\<not> HasSuffix (normalizeAPIUrl s) ''/''"
proof -
  let ?t = "TrimPrefix (TrimPrefix s ''https://'') ''http://''"
  have "\<not> HasSuffix ?t ''//''"
    using assms HasSuffix_TrimPrefix by blast
  then show ?thesis
    using no_slash_after_TrimSuffix by (simp add: normalizeAPIUrl_def)
qed

lemma normalize_id:
  assumes "\<not> hasScheme s" and "\<not> HasSuffix s ''/''"
  shows "normalizeAPIUrl s = s"
  using assms by (simp add: normalizeAPIUrl_def hasScheme_def TrimPrefix_def TrimSuffix_def)

section \<open>Facts about the endpoint operations\<close>

lemma config_updateProxyAndSave [simp]:
  "config (snd (updateProxyAndSave d entry a)) = config a"
  by (simp add: updateProxyAndSave_def split: prod.splits option.splits)

lemma config_UpdateEndpoints [simp]:
  "config (UpdateEndpoints eps a) = (config a)\<lparr>Endpoints := eps\<rparr>"
  by (simp add: UpdateEndpoints_def)

lemma Endpoints_AddEndpoint:
  "Endpoints (config (snd (AddEndpoint d name apiUrl apiKey transformer model remark a))) =
   Endpoints (config a) @
     [\<lparr>Name = name, APIUrl = normalizeAPIUrl apiUrl, APIKey = apiKey, Enabled = True,
       Transformer = (if transformer = [] then ''claude'' else transformer),
       Model = model, Remark = remark\<rparr>]"
  by (simp add: AddEndpoint_def Let_def split: option.splits)

lemma Endpoints_UpdateEndpoint:
  assumes "0 \<le> index" and "index < int (length (Endpoints (config a)))"
  shows
    "Endpoints (config (snd (UpdateEndpoint d index name apiUrl apiKey transformer model remark a))) =
     (Endpoints (config a))[nat index :=
       \<lparr>Name = name, APIUrl = normalizeAPIUrl apiUrl, APIKey = apiKey,
         Enabled = Enabled (Endpoints (config a) ! nat index),
         Transformer = (if transformer = [] then ''claude'' else transformer),
         Model = model, Remark = remark\<rparr>]"
  using assms by (simp add: UpdateEndpoint_def Let_def split: option.splits)

section \<open>Claims about the endpoint and port operations\<close>

text \<open>
  C2, as amended. The host stored by AddEndpoint and by UpdateEndpoint is the input
  with one leading \<open>https://\<close> removed if present, then one leading \<open>http://\<close> removed
  if present, then one trailing \<open>/\<close> removed if present. When what is left after one
  scheme prefix has been stripped does not begin with a scheme prefix again, this is
  the host as the specification words it and it begins with no scheme prefix; when the
  input does not end with two slashes, it does not end with a slash.
\<close>

theorem stored_host_normalized:
  "APIUrl (last (Endpoints (config (snd
      (AddEndpoint d name apiUrl apiKey transformer model remark a))))) = normalizeAPIUrl apiUrl
   \<and> (0 \<le> index \<and> index < int (length (Endpoints (config a))) \<longrightarrow>
        APIUrl (Endpoints (config (snd
          (UpdateEndpoint d index name apiUrl apiKey transformer model remark a))) ! nat index)
        = normalizeAPIUrl apiUrl)
   \<and> normalizeAPIUrl apiUrl =
        TrimSuffix (TrimPrefix (TrimPrefix apiUrl ''https://'') ''http://'') ''/''
   \<and> (\<not> hasScheme (stripScheme apiUrl) \<longrightarrow>
        normalizeAPIUrl apiUrl = TrimSuffix (stripScheme apiUrl) ''/''
        \<and> \<not> hasScheme (normalizeAPIUrl apiUrl))
   \<and> (\<not> HasSuffix apiUrl ''//'' \<longrightarrow> \<not> HasSuffix (normalizeAPIUrl apiUrl) ''/'')"
proof -
  have add: "APIUrl (last (Endpoints (config (snd
      (AddEndpoint d name apiUrl apiKey transformer model remark a))))) = normalizeAPIUrl apiUrl"
    by (simp add: Endpoints_AddEndpoint)
  have upd: "0 \<le> index \<and> index < int (length (Endpoints (config a))) \<longrightarrow>
        APIUrl (Endpoints (config (snd
          (UpdateEndpoint d index name apiUrl apiKey transformer model remark a))) ! nat index)
        = normalizeAPIUrl apiUrl"
  proof
    assume ix: "0 \<le> index \<and> index < int (length (Endpoints (config a)))"
    then have "nat index < length (Endpoints (config a))" by linarith
    then show "APIUrl (Endpoints (config (snd
          (UpdateEndpoint d index name apiUrl apiKey transformer model remark a))) ! nat index)
        = normalizeAPIUrl apiUrl"
      using ix by (simp add: Endpoints_UpdateEndpoint)
  qed
  have unfold: "normalizeAPIUrl apiUrl =
        TrimSuffix (TrimPrefix (TrimPrefix apiUrl ''https://'') ''http://'') ''/''"
    by (simp add: normalizeAPIUrl_def)
  show ?thesis
    using add upd unfold normalize_as_worded normalize_no_scheme normalize_no_slash
    by blast
qed

theorem stored_host_normalized_witness:
  "APIUrl (last (Endpoints (config (snd
      (AddEndpoint exDeps ''D'' ''https://api.example.com/'' ''k'' [] [] [] exApp)))))
     = ''api.example.com''
   \<and> (0::int) \<le> 1 \<and> 1 < int (length (Endpoints (config exApp)))
   \<and> APIUrl (Endpoints (config (snd
      (UpdateEndpoint exDeps 1 ''D'' ''https://api.example.com/'' ''k'' [] [] [] exApp))) ! nat 1)
     = ''api.example.com''
   \<and> \<not> hasScheme (stripScheme ''https://api.example.com/'')
   \<and> \<not> HasSuffix ''https://api.example.com/'' ''//''
   \<and> \<not> hasScheme ''api.example.com'' \<and> \<not> HasSuffix ''api.example.com'' ''/''"
proof -
  have n: "normalizeAPIUrl ''https://api.example.com/'' = ''api.example.com''"
    by (simp add: normalizeAPIUrl_def TrimPrefix_def TrimSuffix_def HasPrefix_def HasSuffix_def)
  have ix: "(0::int) \<le> 1 \<and> 1 < int (length (Endpoints (config exApp)))"
    by (simp add: exApp_def)
  have h1: "\<not> hasScheme (stripScheme ''https://api.example.com/'')"
    by (simp add: hasScheme_def stripScheme_def TrimPrefix_def HasPrefix_def)
  have h2: "\<not> HasSuffix ''https://api.example.com/'' ''//''"
    by (simp add: HasSuffix_def)
  note inst = stored_host_normalized [where d = exDeps and name = "''D''"
        and apiUrl = "''https://api.example.com/''" and apiKey = "''k''" and transformer = "[]"
        and model = "[]" and remark = "[]" and a = exApp and index = 1, unfolded n]
  show ?thesis
    using inst ix h1 h2 by blast
qed

text \<open>
  C2 as stated fails: a host stored by AddEndpoint can begin with a scheme prefix, and
  one can end with a slash.
\<close>

theorem stored_host_counterexample:
  "HasPrefix (APIUrl (last (Endpoints (config (snd
      (AddEndpoint exDeps ''D'' ''http://https://h'' ''k'' [] [] [] exApp)))))) ''https://''
   \<and> HasSuffix (APIUrl (last (Endpoints (config (snd
      (AddEndpoint exDeps ''E'' ''h//'' ''k'' [] [] [] exApp)))))) ''/''"
  by (simp add: Endpoints_AddEndpoint normalizeAPIUrl_def TrimPrefix_def TrimSuffix_def
      HasPrefix_def HasSuffix_def)

text \<open>
  C10. For an index below 0 or not below the number of configured endpoints,
  RemoveEndpoint, UpdateEndpoint and ToggleEndpoint return the error
  "invalid endpoint index" and TestEndpoint returns a failure result; the application
  state, and with it the endpoint list, is left as it was.
\<close>

theorem invalid_index_rejected:
  assumes "index < 0 \<or> index \<ge> int (length (Endpoints (config a)))"
  shows "RemoveEndpoint d index a = (Some (invalidIndex index), a)
       \<and> UpdateEndpoint d index name apiUrl apiKey transformer model remark a
           = (Some (invalidIndex index), a)
       \<and> ToggleEndpoint d index enabled a = (Some (invalidIndex index), a)
       \<and> success (fst (TestEndpoint h index a)) = False
       \<and> snd (TestEndpoint h index a) = a"
proof -
  have "RemoveEndpoint d index a = (Some (invalidIndex index), a)"
    using assms by (auto simp: RemoveEndpoint_def)
  moreover have "UpdateEndpoint d index name apiUrl apiKey transformer model remark a
           = (Some (invalidIndex index), a)"
    using assms by (auto simp: UpdateEndpoint_def)
  moreover have "ToggleEndpoint d index enabled a = (Some (invalidIndex index), a)"
    using assms by (auto simp: ToggleEndpoint_def)
  moreover have "TestEndpoint h index a =
      (\<lparr>success = False, message = Sprintf ''Invalid endpoint index: %d'' [AInt index]\<rparr>, a)"
    using assms by (auto simp: TestEndpoint_def)
  ultimately show ?thesis by simp
qed

theorem invalid_index_rejected_witness:
  "((3::int) < 0 \<or> 3 \<ge> int (length (Endpoints (config exApp))))
   \<and> RemoveEndpoint exDeps 3 exApp = (Some (invalidIndex 3), exApp)
   \<and> UpdateEndpoint exDeps 3 ''X'' ''h'' ''k'' [] [] [] exApp = (Some (invalidIndex 3), exApp)
   \<and> ToggleEndpoint exDeps 3 False exApp = (Some (invalidIndex 3), exApp)
   \<and> success (fst (TestEndpoint exHttp 3 exApp)) = False
   \<and> snd (TestEndpoint exHttp 3 exApp) = exApp
   \<and> ((-1::int) < 0 \<or> -1 \<ge> int (length (Endpoints (config exApp))))
   \<and> RemoveEndpoint exDeps (-1) exApp = (Some (invalidIndex (-1)), exApp)"
proof -
  have hi: "(3::int) < 0 \<or> 3 \<ge> int (length (Endpoints (config exApp)))"
    by (simp add: exApp_def)
  have lo: "(-1::int) < 0 \<or> -1 \<ge> int (length (Endpoints (config exApp)))"
    by simp
  show ?thesis
    using invalid_index_rejected [OF hi, of exDeps "''X''" "''h''" "''k''" "[]" "[]" "[]"
        False exHttp]
      invalid_index_rejected [OF lo, of exDeps "''X''" "''h''" "''k''" "[]" "[]" "[]"
        False exHttp] hi lo
    by blast
qed

text \<open>
  C9. For a valid index, UpdateEndpoint puts in place of the endpoint at that index one
  with the supplied name, credential, model and remark, with the host got from the
  supplied URL by normalizeAPIUrl (the supplied string itself when it carries no scheme
  prefix and no trailing slash), with the supplied transformer or "claude" when that is
  empty, and with the enabled flag the endpoint had before; the other endpoints stay.
  This holds of the configuration whatever the later validation, proxy update and save
  return.
\<close>

theorem UpdateEndpoint_keeps_enabled:
  assumes "0 \<le> index" and "index < int (length (Endpoints (config a)))"
  shows "Endpoints (config (snd
            (UpdateEndpoint d index name apiUrl apiKey transformer model remark a))) =
         (Endpoints (config a))[nat index :=
            \<lparr>Name = name, APIUrl = normalizeAPIUrl apiUrl, APIKey = apiKey,
              Enabled = Enabled (Endpoints (config a) ! nat index),
              Transformer = (if transformer = [] then ''claude'' else transformer),
              Model = model, Remark = remark\<rparr>]
       \<and> Enabled (Endpoints (config (snd
            (UpdateEndpoint d index name apiUrl apiKey transformer model remark a))) ! nat index)
          = Enabled (Endpoints (config a) ! nat index)
       \<and> (\<not> hasScheme apiUrl \<and> \<not> HasSuffix apiUrl ''/'' \<longrightarrow> normalizeAPIUrl apiUrl = apiUrl)"
proof -
  have lt: "nat index < length (Endpoints (config a))"
    using assms by linarith
  have eq: "Endpoints (config (snd
            (UpdateEndpoint d index name apiUrl apiKey transformer model remark a))) =
         (Endpoints (config a))[nat index :=
            \<lparr>Name = name, APIUrl = normalizeAPIUrl apiUrl, APIKey = apiKey,
              Enabled = Enabled (Endpoints (config a) ! nat index),
              Transformer = (if transformer = [] then ''claude'' else transformer),
              Model = model, Remark = remark\<rparr>]"
    using assms by (rule Endpoints_UpdateEndpoint)
  have en: "Enabled (Endpoints (config (snd
            (UpdateEndpoint d index name apiUrl apiKey transformer model remark a))) ! nat index)
          = Enabled (Endpoints (config a) ! nat index)"
    using lt by (simp add: eq)
  show ?thesis
    using eq en normalize_id by blast
qed

theorem UpdateEndpoint_keeps_enabled_witness:
  "(0::int) \<le> 1 \<and> 1 < int (length (Endpoints (config exApp)))
   \<and> Endpoints (config (snd
        (UpdateEndpoint exDeps 1 ''B2'' ''https://x.example/'' ''k2'' [] ''m'' ''r'' exApp))) =
      [epA,
       \<lparr>Name = ''B2'', APIUrl = ''x.example'', APIKey = ''k2'', Enabled = False,
         Transformer = ''claude'', Model = ''m'', Remark = ''r''\<rparr>,
       epC]
   \<and> Enabled epB = False"
proof -
  have lo: "(0::int) \<le> 1" by simp
  have hi: "1 < int (length (Endpoints (config exApp)))"
    by (simp add: exApp_def)
  have n: "normalizeAPIUrl ''https://x.example/'' = ''x.example''"
    by (simp add: normalizeAPIUrl_def TrimPrefix_def TrimSuffix_def HasPrefix_def HasSuffix_def)
  have "Endpoints (config (snd
        (UpdateEndpoint exDeps 1 ''B2'' ''https://x.example/'' ''k2'' [] ''m'' ''r'' exApp))) =
      (Endpoints (config exApp))[nat 1 :=
            \<lparr>Name = ''B2'', APIUrl = normalizeAPIUrl ''https://x.example/'', APIKey = ''k2'',
              Enabled = Enabled (Endpoints (config exApp) ! nat 1),
              Transformer = (if ([]::string) = [] then ''claude'' else []),
              Model = ''m'', Remark = ''r''\<rparr>]"
    using UpdateEndpoint_keeps_enabled [OF lo hi] by blast
  then show ?thesis
    using lo hi by (simp add: n exApp_def epB_def)
qed

text \<open>
  C6. Removing the only endpoint does not consult the validation: whatever Validate
  would answer, even a rejection of every configuration, RemoveEndpoint at index 0 of a
  one-element list hands the empty list to the proxy and to the save, and returns no
  error when these two return none.
\<close>

theorem RemoveEndpoint_last_accepted:
  assumes "length (Endpoints (config a)) = 1"
    and "fst (ProxyUpdateConfig d ((config a)\<lparr>Endpoints := []\<rparr>) (proxy a)) = None"
    and "fst (Save d (configPath a) ((config a)\<lparr>Endpoints := []\<rparr>) (disk a)) = None"
  shows "fst (RemoveEndpoint d 0 a) = None
       \<and> Endpoints (config (snd (RemoveEndpoint d 0 a))) = []
       \<and> RemoveEndpoint (d\<lparr>Validate := v\<rparr>) 0 a = RemoveEndpoint d 0 a"
proof -
  obtain e where e: "Endpoints (config a) = [e]"
    using assms(1) by (cases "Endpoints (config a)") auto
  have skip: "RemoveEndpoint d' 0 a =
      updateProxyAndSave d' (INFO, Sprintf ''Endpoint removed: %s'' [AStr (Name e)])
        (UpdateEndpoints [] a)" for d' :: "('a, 'b) Deps"
    by (simp add: RemoveEndpoint_def e)
  have same: "updateProxyAndSave (d\<lparr>Validate := v\<rparr>) entry b = updateProxyAndSave d entry b"
    for entry b
    by (simp add: updateProxyAndSave_def Let_def split: prod.splits option.splits)
  have ok: "fst (RemoveEndpoint d 0 a) = None"
    using assms(2,3)
    by (auto simp: skip updateProxyAndSave_def UpdateEndpoints_def split: prod.splits option.splits)
  have emp: "Endpoints (config (snd (RemoveEndpoint d 0 a))) = []"
    by (simp add: skip)
  show ?thesis
    using ok emp by (simp add: skip same)
qed

theorem RemoveEndpoint_last_accepted_witness:
  "length (Endpoints (config exAppSingle)) = 1
   \<and> Validate exDeps ((config exAppSingle)\<lparr>Endpoints := []\<rparr>) \<noteq> None
   \<and> fst (RemoveEndpoint exDeps 0 exAppSingle) = None
   \<and> Endpoints (config (snd (RemoveEndpoint exDeps 0 exAppSingle))) = []"
proof -
  have one: "length (Endpoints (config exAppSingle)) = 1"
    by (simp add: exAppSingle_def)
  have p: "fst (ProxyUpdateConfig exDeps ((config exAppSingle)\<lparr>Endpoints := []\<rparr>)
             (proxy exAppSingle)) = None"
    by (simp add: exDeps_def Replace_def)
  have s: "fst (Save exDeps (configPath exAppSingle) ((config exAppSingle)\<lparr>Endpoints := []\<rparr>)
             (disk exAppSingle)) = None"
    by (simp add: exDeps_def)
  have rej: "Validate exDeps ((config exAppSingle)\<lparr>Endpoints := []\<rparr>) \<noteq> None"
    by (simp add: exDeps_def)
  show ?thesis
    using RemoveEndpoint_last_accepted [OF one p s] one rej by blast
qed

text \<open>
  C1, as amended. UpdatePort with a port from 1 to 65535 writes the port into the
  configuration and saves the configuration; its result is the result of the save. It
  leaves the proxy, and with it the listener, as it was: the new port is used by the
  listener that the next start of the application binds.
\<close>

theorem UpdatePort_config_only:
  assumes "1 \<le> port" and "port \<le> 65535"
  shows "proxy (snd (UpdatePort d port a)) = proxy a
       \<and> Port (config (snd (UpdatePort d port a))) = port
       \<and> Endpoints (config (snd (UpdatePort d port a))) = Endpoints (config a)
       \<and> logbuf (snd (UpdatePort d port a)) = logbuf a
       \<and> UpdatePort d port a =
           (fst (Save d (configPath a) ((config a)\<lparr>Port := port\<rparr>) (disk a)),
            a\<lparr>config := (config a)\<lparr>Port := port\<rparr>,
              disk := snd (Save d (configPath a) ((config a)\<lparr>Port := port\<rparr>) (disk a))\<rparr>)"
  using assms by (simp add: UpdatePort_def Let_def split: prod.splits)

theorem UpdatePort_config_only_witness:
  "(1::int) \<le> 9000 \<and> (9000::int) \<le> 65535
   \<and> proxy (snd (UpdatePort exDeps 9000 exApp)) = exProxy
   \<and> Port (config (snd (UpdatePort exDeps 9000 exApp))) = 9000
   \<and> fst (UpdatePort exDeps 9000 exApp) = None"
proof -
  have lo: "(1::int) \<le> 9000" and hi: "(9000::int) \<le> 65535" by simp_all
  have "fst (UpdatePort exDeps 9000 exApp) =
        fst (Save exDeps (configPath exApp) ((config exApp)\<lparr>Port := 9000\<rparr>) (disk exApp))"
    using UpdatePort_config_only [OF lo hi, of exDeps exApp] by simp
  moreover have "proxy (snd (UpdatePort exDeps 9000 exApp)) = proxy exApp
     \<and> Port (config (snd (UpdatePort exDeps 9000 exApp))) = 9000"
    using UpdatePort_config_only [OF lo hi, of exDeps exApp] by blast
  ultimately show ?thesis
    by (simp add: exDeps_def exApp_def)
qed

text \<open>
  C1 as stated fails: after a successful update of the port from 3000 to 9000 the
  listener is still the one bound to port 3000, not the one that ReloadPort would leave.
\<close>

theorem UpdatePort_counterexample:
  "fst (UpdatePort exDeps 9000 exApp) = None
   \<and> Port (config (snd (UpdatePort exDeps 9000 exApp))) = 9000
   \<and> boundPort (listener (proxy (snd (UpdatePort exDeps 9000 exApp)))) = 3000
   \<and> listener (proxy (snd (UpdatePort exDeps 9000 exApp)))
       \<noteq> ReloadPort 9000 (listener (proxy exApp))"
  by (simp add: UpdatePort_def exDeps_def exApp_def exProxy_def ReloadPort_def)

section \<open>Facts about the connection test\<close>

lemma logf_frame [simp]:
  "config (logf lvl fmt args a) = config a"
  "proxy (logf lvl fmt args a) = proxy a"
  "disk (logf lvl fmt args a) = disk a"
  "configPath (logf lvl fmt args a) = configPath a"
  by (simp_all add: logf_def)

lemma effectiveTransformer_nonempty: "effectiveTransformer endpoint \<noteq> []"
  by (simp add: effectiveTransformer_def)

lemma testPathAndBody_Some:
  assumes "testPathAndBody t endpoint = Some (apiPath, body)"
  shows "(t = ''claude'' \<and> apiPath = ''/v1/messages'')
       \<or> (t = ''openai'' \<and> apiPath = ''/v1/chat/completions'')
       \<or> (t = ''gemini'' \<and> apiPath = ''/v1beta/models/''
             @ (if Model endpoint = [] then ''gemini-pro'' else Model endpoint)
             @ '':generateContent'')"
  using assms by (simp add: testPathAndBody_def Let_def split: if_splits)

lemma buildTestRequest_Inr:
  assumes "buildTestRequest h endpoint = Inr req"
  obtains apiPath body where
    "testPathAndBody (effectiveTransformer endpoint) endpoint = Some (apiPath, body)"
    "NewRequestErr h (''https://'' @ APIUrl endpoint @ apiPath) = None"
    "Method req = ''POST''"
    "URL req = ''https://'' @ APIUrl endpoint @ apiPath"
    "Body req = body"
    "Header req =
       (if effectiveTransformer endpoint = ''claude'' then
          [''Content-Type'' \<mapsto> ''application/json'', ''x-api-key'' \<mapsto> APIKey endpoint,
           ''anthropic-version'' \<mapsto> ''2023-06-01'']
        else if effectiveTransformer endpoint = ''openai'' then
          [''Content-Type'' \<mapsto> ''application/json'',
           ''Authorization'' \<mapsto> ''Bearer '' @ APIKey endpoint]
        else [''Content-Type'' \<mapsto> ''application/json''])"
    "QueryAdd req =
       (if effectiveTransformer endpoint = ''gemini'' then [(''key'', APIKey endpoint)] else [])"
proof (cases "testPathAndBody (effectiveTransformer endpoint) endpoint")
  case None
  then show ?thesis using assms by (simp add: buildTestRequest_def)
next
  case (Some pb)
  obtain apiPath body where pb: "pb = (apiPath, body)" by (cases pb)
  show ?thesis
  proof (cases "NewRequestErr h (''https://'' @ APIUrl endpoint @ apiPath)")
    case (Some err)
    then show ?thesis
      using assms \<open>testPathAndBody (effectiveTransformer endpoint) endpoint = Some pb\<close> pb
      by (simp add: buildTestRequest_def)
  next
    case None
    have req: "req =
        (let r = \<lparr>Method = ''POST'', URL = ''https://'' @ APIUrl endpoint @ apiPath,
                   Header = [''Content-Type'' \<mapsto> ''application/json''],
                   QueryAdd = [], Body = body\<rparr>
         in if effectiveTransformer endpoint = ''claude'' then
              r\<lparr>Header := (Header r)(''x-api-key'' \<mapsto> APIKey endpoint,
                                      ''anthropic-version'' \<mapsto> ''2023-06-01'')\<rparr>
            else if effectiveTransformer endpoint = ''openai'' then
              r\<lparr>Header := (Header r)(''Authorization'' \<mapsto> ''Bearer '' @ APIKey endpoint)\<rparr>
            else if effectiveTransformer endpoint = ''gemini'' then
              r\<lparr>QueryAdd := QueryAdd r @ [(''key'', APIKey endpoint)]\<rparr>
            else r)"
      using assms \<open>testPathAndBody (effectiveTransformer endpoint) endpoint = Some pb\<close> pb None
      by (simp add: buildTestRequest_def Let_def)
    show ?thesis
    proof (rule that [of apiPath body])
      show "testPathAndBody (effectiveTransformer endpoint) endpoint = Some (apiPath, body)"
        using \<open>testPathAndBody (effectiveTransformer endpoint) endpoint = Some pb\<close> pb by simp
      show "NewRequestErr h (''https://'' @ APIUrl endpoint @ apiPath) = None" by (rule None)
      show "Method req = ''POST''" by (simp add: req Let_def)
      show "URL req = ''https://'' @ APIUrl endpoint @ apiPath" by (simp add: req Let_def)
      show "Body req = body" by (simp add: req Let_def)
      show "Header req =
       (if effectiveTransformer endpoint = ''claude'' then
          [''Content-Type'' \<mapsto> ''application/json'', ''x-api-key'' \<mapsto> APIKey endpoint,
           ''anthropic-version'' \<mapsto> ''2023-06-01'']
        else if effectiveTransformer endpoint = ''openai'' then
          [''Content-Type'' \<mapsto> ''application/json'',
           ''Authorization'' \<mapsto> ''Bearer '' @ APIKey endpoint]
        else [''Content-Type'' \<mapsto> ''application/json''])"
        by (simp add: req Let_def)
      show "QueryAdd req =
       (if effectiveTransformer endpoint = ''gemini'' then [(''key'', APIKey endpoint)] else [])"
        by (simp add: req Let_def)
    qed
  qed
qed

lemma buildTestRequest_built:
  assumes "testPathAndBody (effectiveTransformer endpoint) endpoint = Some (apiPath, body)"
    and "NewRequestErr h (''https://'' @ APIUrl endpoint @ apiPath) = None"
  shows "\<exists>req. buildTestRequest h endpoint = Inr req"
  using assms by (simp add: buildTestRequest_def Let_def)

lemma buildTestRequest_ClientDo [simp]:
  "buildTestRequest (h\<lparr>ClientDo := f\<rparr>) endpoint = buildTestRequest h endpoint"
  by (simp add: buildTestRequest_def Let_def split: option.splits prod.splits)

lemma sendTestRequest_frame [simp]:
  "config (snd (sendTestRequest h endpoint req a)) = config a"
  "proxy (snd (sendTestRequest h endpoint req a)) = proxy a"
  "disk (snd (sendTestRequest h endpoint req a)) = disk a"
  by (simp_all add: sendTestRequest_def Let_def split: sum.splits option.splits)

lemma sendTestRequest_own_client:
  "sendTestRequest (h\<lparr>ClientDo := (\<lambda>c. if c = testClient then ClientDo h c else other c)\<rparr>)
     endpoint req a = sendTestRequest h endpoint req a"
  by (simp add: sendTestRequest_def Let_def split: sum.splits option.splits)

section \<open>Claims about the connection test\<close>

text \<open>
  C3. A request that the connection test builds for an endpoint carries the credential
  where the endpoint's kind puts it: for claude (also when the transformer is left
  empty) the headers \<open>x-api-key\<close>, with the credential, and \<open>anthropic-version\<close>; for
  openai the header \<open>Authorization\<close> with \<open>Bearer\<close> and the credential; for gemini the
  query parameter \<open>key\<close>, and then \<open>Content-Type\<close> is the only header. A request is
  built for these three kinds only.
\<close>

theorem test_request_auth:
  assumes "buildTestRequest h endpoint = Inr req"
  shows "(effectiveTransformer endpoint = ''claude'' \<longrightarrow>
            Header req ''x-api-key'' = Some (APIKey endpoint)
            \<and> Header req ''anthropic-version'' = Some ''2023-06-01''
            \<and> QueryAdd req = [])
       \<and> (effectiveTransformer endpoint = ''openai'' \<longrightarrow>
            Header req ''Authorization'' = Some (''Bearer '' @ APIKey endpoint)
            \<and> QueryAdd req = [])
       \<and> (effectiveTransformer endpoint = ''gemini'' \<longrightarrow>
            QueryAdd req = [(''key'', APIKey endpoint)]
            \<and> Header req = [''Content-Type'' \<mapsto> ''application/json''])
       \<and> effectiveTransformer endpoint \<in> {''claude'', ''openai'', ''gemini''}"
proof -
  from assms obtain apiPath body where
    pb: "testPathAndBody (effectiveTransformer endpoint) endpoint = Some (apiPath, body)"
    and hd: "Header req =
       (if effectiveTransformer endpoint = ''claude'' then
          [''Content-Type'' \<mapsto> ''application/json'', ''x-api-key'' \<mapsto> APIKey endpoint,
           ''anthropic-version'' \<mapsto> ''2023-06-01'']
        else if effectiveTransformer endpoint = ''openai'' then
          [''Content-Type'' \<mapsto> ''application/json'',
           ''Authorization'' \<mapsto> ''Bearer '' @ APIKey endpoint]
        else [''Content-Type'' \<mapsto> ''application/json''])"
    and q: "QueryAdd req =
       (if effectiveTransformer endpoint = ''gemini'' then [(''key'', APIKey endpoint)] else [])"
    by (rule buildTestRequest_Inr)
  have kinds: "effectiveTransformer endpoint \<in> {''claude'', ''openai'', ''gemini''}"
    using testPathAndBody_Some [OF pb] by auto
  have c: "effectiveTransformer endpoint = ''claude'' \<longrightarrow>
            Header req ''x-api-key'' = Some (APIKey endpoint)
            \<and> Header req ''anthropic-version'' = Some ''2023-06-01''
            \<and> QueryAdd req = []"
    by (simp add: hd q)
  have o: "effectiveTransformer endpoint = ''openai'' \<longrightarrow>
            Header req ''Authorization'' = Some (''Bearer '' @ APIKey endpoint)
            \<and> QueryAdd req = []"
    by (simp add: hd q)
  have g: "effectiveTransformer endpoint = ''gemini'' \<longrightarrow>
            QueryAdd req = [(''key'', APIKey endpoint)]
            \<and> Header req = [''Content-Type'' \<mapsto> ''application/json'']"
    by (simp add: hd q)
  show ?thesis using c o g kinds by blast
qed

theorem test_request_auth_witness:
  "(\<exists>req. buildTestRequest exHttp epA = Inr req
        \<and> Header req ''x-api-key'' = Some ''sk-a''
        \<and> Header req ''anthropic-version'' = Some ''2023-06-01'')
   \<and> (\<exists>req. buildTestRequest exHttp epB = Inr req
        \<and> Header req ''Authorization'' = Some ''Bearer sk-b'')
   \<and> (\<exists>req. buildTestRequest exHttp epC = Inr req
        \<and> QueryAdd req = [(''key'', ''sk-c'')]
        \<and> Header req = [''Content-Type'' \<mapsto> ''application/json''])"
proof -
  have tA: "effectiveTransformer epA = ''claude''"
    and tB: "effectiveTransformer epB = ''openai''"
    and tC: "effectiveTransformer epC = ''gemini''"
    by (simp_all add: effectiveTransformer_def epA_def epB_def epC_def)
  obtain rA where rA: "buildTestRequest exHttp epA = Inr rA"
    by (simp add: buildTestRequest_def effectiveTransformer_def testPathAndBody_def
        epA_def exHttp_def Let_def)
  obtain rB where rB: "buildTestRequest exHttp epB = Inr rB"
    by (simp add: buildTestRequest_def effectiveTransformer_def testPathAndBody_def
        epB_def exHttp_def Let_def)
  obtain rC where rC: "buildTestRequest exHttp epC = Inr rC"
    by (simp add: buildTestRequest_def effectiveTransformer_def testPathAndBody_def
        epC_def exHttp_def Let_def)
  have kA: "APIKey epA = ''sk-a''" and kB: "APIKey epB = ''sk-b''" and kC: "APIKey epC = ''sk-c''"
    by (simp_all add: epA_def epB_def epC_def)
  have "Header rA ''x-api-key'' = Some ''sk-a'' \<and> Header rA ''anthropic-version'' = Some ''2023-06-01''"
    using test_request_auth [OF rA] tA kA by simp
  moreover have "Header rB ''Authorization'' = Some ''Bearer sk-b''"
    using test_request_auth [OF rB] tB kB by simp
  moreover have "QueryAdd rC = [(''key'', ''sk-c'')]
      \<and> Header rC = [''Content-Type'' \<mapsto> ''application/json'']"
    using test_request_auth [OF rC] tC kC by simp
  ultimately show ?thesis using rA rB rC by blast
qed

text \<open>
  C4. The URL of a request that the connection test builds is \<open>https://\<close>, then the
  host of the endpoint as stored, then the path of the endpoint's kind:
  \<open>/v1/messages\<close> for claude, \<open>/v1/chat/completions\<close> for openai, and for gemini
  \<open>/v1beta/models/\<close>, the model, \<open>:generateContent\<close>, where the model is the endpoint's
  model, or \<open>gemini-pro\<close> when the endpoint has none. The method is POST.
\<close>

theorem test_request_url:
  assumes "buildTestRequest h endpoint = Inr req"
  shows "Method req = ''POST''
       \<and> URL req = ''https://'' @ APIUrl endpoint @
           (if effectiveTransformer endpoint = ''claude'' then ''/v1/messages''
            else if effectiveTransformer endpoint = ''openai'' then ''/v1/chat/completions''
            else ''/v1beta/models/''
                 @ (if Model endpoint = [] then ''gemini-pro'' else Model endpoint)
                 @ '':generateContent'')
       \<and> (effectiveTransformer endpoint \<noteq> ''claude'' \<and> effectiveTransformer endpoint \<noteq> ''openai''
            \<longrightarrow> effectiveTransformer endpoint = ''gemini'')"
proof -
  from assms obtain apiPath body where
    pb: "testPathAndBody (effectiveTransformer endpoint) endpoint = Some (apiPath, body)"
    and m: "Method req = ''POST''"
    and u: "URL req = ''https://'' @ APIUrl endpoint @ apiPath"
    by (rule buildTestRequest_Inr)
  show ?thesis
    using testPathAndBody_Some [OF pb] m u by auto
qed

theorem test_request_url_witness:
  "(\<exists>req. buildTestRequest exHttp epA = Inr req
        \<and> URL req = ''https://api.anthropic.com/v1/messages'')
   \<and> (\<exists>req. buildTestRequest exHttp epB = Inr req
        \<and> URL req = ''https://api.openai.com/v1/chat/completions'')
   \<and> (\<exists>req. buildTestRequest exHttp epC = Inr req
        \<and> URL req = ''https://generativelanguage.googleapis.com/v1beta/models/gemini-1.5-pro:generateContent'')"
proof -
  obtain rA where rA: "buildTestRequest exHttp epA = Inr rA"
    by (simp add: buildTestRequest_def effectiveTransformer_def testPathAndBody_def
        epA_def exHttp_def Let_def)
  obtain rB where rB: "buildTestRequest exHttp epB = Inr rB"
    by (simp add: buildTestRequest_def effectiveTransformer_def testPathAndBody_def
        epB_def exHttp_def Let_def)
  obtain rC where rC: "buildTestRequest exHttp epC = Inr rC"
    by (simp add: buildTestRequest_def effectiveTransformer_def testPathAndBody_def
        epC_def exHttp_def Let_def)
  have "URL rA = ''https://api.anthropic.com/v1/messages''"
    using test_request_url [OF rA] by (simp add: effectiveTransformer_def epA_def)
  moreover have "URL rB = ''https://api.openai.com/v1/chat/completions''"
    using test_request_url [OF rB] by (simp add: effectiveTransformer_def epB_def)
  moreover have "URL rC =
      ''https://generativelanguage.googleapis.com/v1beta/models/gemini-1.5-pro:generateContent''"
    using test_request_url [OF rC] by (simp add: effectiveTransformer_def epC_def)
  ultimately show ?thesis using rA rB rC by blast
qed

text \<open>
  C8. For a valid index and an endpoint for which a request is built, TestEndpoint
  sends that request with a client of its own, whose timeout is 30 seconds, and its
  result is the one that the answer to this client determines: a failure with the
  client's error, a failure with the error of reading the body, a failure with a status
  other than 200 and the body, or a success with the text extracted from the body. What
  any other client would answer has no part in the result. TestEndpoint leaves the
  configuration, the saved files and the proxy as they were, and with the proxy the
  statistics store that the proxy holds; only log entries are added.
\<close>

theorem TestEndpoint_frame:
  "proxy (snd (TestEndpoint h index a)) = proxy a
   \<and> config (snd (TestEndpoint h index a)) = config a
   \<and> disk (snd (TestEndpoint h index a)) = disk a
   \<and> Timeout testClient = 30 * Second
   \<and> TestEndpoint (h\<lparr>ClientDo := (\<lambda>c. if c = testClient then ClientDo h c else other c)\<rparr>)
        index a = TestEndpoint h index a
   \<and> (0 \<le> index \<and> index < int (length (Endpoints (config a)))
        \<and> buildTestRequest h (Endpoints (config a) ! nat index) = Inr req \<longrightarrow>
        (ClientDo h testClient req = Inl err \<longrightarrow>
           fst (TestEndpoint h index a) =
             \<lparr>success = False, message = Sprintf ''Request failed: %v'' [AErr err]\<rparr>)
        \<and> (ClientDo h testClient req = Inr resp \<and> ReadAll resp = Inl err \<longrightarrow>
           fst (TestEndpoint h index a) =
             \<lparr>success = False, message = Sprintf ''Failed to read response: %v'' [AErr err]\<rparr>)
        \<and> (ClientDo h testClient req = Inr resp \<and> ReadAll resp = Inr respBody
             \<and> StatusCode resp \<noteq> 200 \<longrightarrow>
           fst (TestEndpoint h index a) =
             \<lparr>success = False,
               message = Sprintf ''HTTP %d: %s'' [AInt (StatusCode resp), AStr respBody]\<rparr>)
        \<and> (ClientDo h testClient req = Inr resp \<and> ReadAll resp = Inr respBody
             \<and> StatusCode resp = 200 \<longrightarrow>
           fst (TestEndpoint h index a) =
             \<lparr>success = True,
               message = Plain
                 (case Unmarshal h respBody of
                    None \<Rightarrow> respBody
                  | Some responseData \<Rightarrow>
                      (if extractMessage
                            (effectiveTransformer (Endpoints (config a) ! nat index))
                            responseData = []
                       then respBody
                       else extractMessage
                              (effectiveTransformer (Endpoints (config a) ! nat index))
                              responseData))\<rparr>))"
proof -
  have frame: "proxy (snd (TestEndpoint h index a)) = proxy a
     \<and> config (snd (TestEndpoint h index a)) = config a
     \<and> disk (snd (TestEndpoint h index a)) = disk a"
    by (simp add: TestEndpoint_def Let_def split: sum.splits)
  have own: "TestEndpoint (h\<lparr>ClientDo := (\<lambda>c. if c = testClient then ClientDo h c else other c)\<rparr>)
        index a = TestEndpoint h index a"
    by (simp add: TestEndpoint_def Let_def sendTestRequest_own_client split: sum.splits)
  have sent: "fst (TestEndpoint h index a) =
        fst (sendTestRequest h (Endpoints (config a) ! nat index) req
              (logf INFO ''Testing endpoint: %s (%s)''
                 [AStr (Name (Endpoints (config a) ! nat index)),
                  AStr (APIUrl (Endpoints (config a) ! nat index))] a))"
    if "0 \<le> index \<and> index < int (length (Endpoints (config a)))
        \<and> buildTestRequest h (Endpoints (config a) ! nat index) = Inr req"
    using that by (simp add: TestEndpoint_def Let_def)
  have r1: "ClientDo h testClient req = Inl err \<longrightarrow>
      fst (sendTestRequest h e req b) =
        \<lparr>success = False, message = Sprintf ''Request failed: %v'' [AErr err]\<rparr>" for e b
    by (simp add: sendTestRequest_def)
  have r2: "ClientDo h testClient req = Inr resp \<and> ReadAll resp = Inl err \<longrightarrow>
      fst (sendTestRequest h e req b) =
        \<lparr>success = False, message = Sprintf ''Failed to read response: %v'' [AErr err]\<rparr>"
    for e b
    by (simp add: sendTestRequest_def)
  have r3: "ClientDo h testClient req = Inr resp \<and> ReadAll resp = Inr respBody
      \<and> StatusCode resp \<noteq> 200 \<longrightarrow>
      fst (sendTestRequest h e req b) =
        \<lparr>success = False,
          message = Sprintf ''HTTP %d: %s'' [AInt (StatusCode resp), AStr respBody]\<rparr>" for e b
    by (simp add: sendTestRequest_def)
  have r4: "ClientDo h testClient req = Inr resp \<and> ReadAll resp = Inr respBody
      \<and> StatusCode resp = 200 \<longrightarrow>
      fst (sendTestRequest h e req b) =
        \<lparr>success = True,
          message = Plain
            (case Unmarshal h respBody of
               None \<Rightarrow> respBody
             | Some responseData \<Rightarrow>
                 (if extractMessage (effectiveTransformer e) responseData = [] then respBody
                  else extractMessage (effectiveTransformer e) responseData))\<rparr>" for e b
    by (simp add: sendTestRequest_def Let_def split: option.splits)
  have timeout: "Timeout testClient = 30 * Second"
    by (simp add: testClient_def)
  have dispatch:
    "0 \<le> index \<and> index < int (length (Endpoints (config a)))
        \<and> buildTestRequest h (Endpoints (config a) ! nat index) = Inr req \<longrightarrow>
        (ClientDo h testClient req = Inl err \<longrightarrow>
           fst (TestEndpoint h index a) =
             \<lparr>success = False, message = Sprintf ''Request failed: %v'' [AErr err]\<rparr>)
        \<and> (ClientDo h testClient req = Inr resp \<and> ReadAll resp = Inl err \<longrightarrow>
           fst (TestEndpoint h index a) =
             \<lparr>success = False, message = Sprintf ''Failed to read response: %v'' [AErr err]\<rparr>)
        \<and> (ClientDo h testClient req = Inr resp \<and> ReadAll resp = Inr respBody
             \<and> StatusCode resp \<noteq> 200 \<longrightarrow>
           fst (TestEndpoint h index a) =
             \<lparr>success = False,
               message = Sprintf ''HTTP %d: %s'' [AInt (StatusCode resp), AStr respBody]\<rparr>)
        \<and> (ClientDo h testClient req = Inr resp \<and> ReadAll resp = Inr respBody
             \<and> StatusCode resp = 200 \<longrightarrow>
           fst (TestEndpoint h index a) =
             \<lparr>success = True,
               message = Plain
                 (case Unmarshal h respBody of
                    None \<Rightarrow> respBody
                  | Some responseData \<Rightarrow>
                      (if extractMessage
                            (effectiveTransformer (Endpoints (config a) ! nat index))
                            responseData = []
                       then respBody
                       else extractMessage
                              (effectiveTransformer (Endpoints (config a) ! nat index))
                              responseData))\<rparr>)"
  proof
    assume hyp: "0 \<le> index \<and> index < int (length (Endpoints (config a)))
        \<and> buildTestRequest h (Endpoints (config a) ! nat index) = Inr req"
    show "(ClientDo h testClient req = Inl err \<longrightarrow>
           fst (TestEndpoint h index a) =
             \<lparr>success = False, message = Sprintf ''Request failed: %v'' [AErr err]\<rparr>)
        \<and> (ClientDo h testClient req = Inr resp \<and> ReadAll resp = Inl err \<longrightarrow>
           fst (TestEndpoint h index a) =
             \<lparr>success = False, message = Sprintf ''Failed to read response: %v'' [AErr err]\<rparr>)
        \<and> (ClientDo h testClient req = Inr resp \<and> ReadAll resp = Inr respBody
             \<and> StatusCode resp \<noteq> 200 \<longrightarrow>
           fst (TestEndpoint h index a) =
             \<lparr>success = False,
               message = Sprintf ''HTTP %d: %s'' [AInt (StatusCode resp), AStr respBody]\<rparr>)
        \<and> (ClientDo h testClient req = Inr resp \<and> ReadAll resp = Inr respBody
             \<and> StatusCode resp = 200 \<longrightarrow>
           fst (TestEndpoint h index a) =
             \<lparr>success = True,
               message = Plain
                 (case Unmarshal h respBody of
                    None \<Rightarrow> respBody
                  | Some responseData \<Rightarrow>
                      (if extractMessage
                            (effectiveTransformer (Endpoints (config a) ! nat index))
                            responseData = []
                       then respBody
                       else extractMessage
                              (effectiveTransformer (Endpoints (config a) ! nat index))
                              responseData))\<rparr>)"
      unfolding sent [OF hyp] by (intro conjI r1 r2 r3 r4)
  qed
  show ?thesis
    using frame own timeout dispatch by blast
qed

theorem TestEndpoint_frame_witness:
  "(0::int) \<le> 0 \<and> 0 < int (length (Endpoints (config exApp)))
   \<and> (\<exists>req. buildTestRequest exHttp (Endpoints (config exApp) ! nat 0) = Inr req
         \<and> ClientDo exHttp testClient req = Inr \<lparr>StatusCode = 200, ReadAll = Inr ''{...}''\<rparr>)
   \<and> fst (TestEndpoint exHttp 0 exApp) = \<lparr>success = True, message = Plain ''hello''\<rparr>
   \<and> (\<exists>req. buildTestRequest exHttpDown (Endpoints (config exApp) ! nat 0) = Inr req
         \<and> ClientDo exHttpDown testClient req = Inl (Plain ''context deadline exceeded''))
   \<and> fst (TestEndpoint exHttpDown 0 exApp) =
       \<lparr>success = False,
         message = Sprintf ''Request failed: %v'' [AErr (Plain ''context deadline exceeded'')]\<rparr>
   \<and> statistics (proxy (snd (TestEndpoint exHttp 0 exApp))) = statistics exProxy
   \<and> listener (proxy (snd (TestEndpoint exHttp 0 exApp))) = listener exProxy
   \<and> Timeout testClient = 30000000000"
proof -
  have ix: "(0::int) \<le> 0 \<and> 0 < int (length (Endpoints (config exApp)))"
    by (simp add: exApp_def)
  have ep: "Endpoints (config exApp) ! nat 0 = epA"
    by (simp add: exApp_def)
  obtain req where req: "buildTestRequest exHttp epA = Inr req"
    by (simp add: buildTestRequest_def effectiveTransformer_def testPathAndBody_def
        epA_def exHttp_def Let_def)
  have down: "buildTestRequest exHttpDown epA = Inr req"
    using req by (simp add: exHttpDown_def)
  have up_resp: "ClientDo exHttp testClient req = Inr \<lparr>StatusCode = 200, ReadAll = Inr ''{...}''\<rparr>"
    by (simp add: exHttp_def)
  have down_resp: "ClientDo exHttpDown testClient req = Inl (Plain ''context deadline exceeded'')"
    by (simp add: exHttpDown_def)
  have msg: "extractMessage (effectiveTransformer epA)
               [(''content'', JArr [JObj [(''type'', JStr ''text''), (''text'', JStr ''hello'')]])]
             = ''hello''"
    by (simp add: extractMessage_def effectiveTransformer_def epA_def)
  have un: "Unmarshal exHttp ''{...}'' =
      Some [(''content'', JArr [JObj [(''type'', JStr ''text''), (''text'', JStr ''hello'')]])]"
    by (simp add: exHttp_def)
  have sel: "ReadAll \<lparr>StatusCode = 200, ReadAll = Inr ''{...}''\<rparr> = Inr ''{...}''
      \<and> StatusCode \<lparr>StatusCode = 200, ReadAll = Inr ''{...}''\<rparr> = 200"
    by simp
  note at_up = TestEndpoint_frame [of exHttp 0 exApp _ req _
        "\<lparr>StatusCode = 200, ReadAll = Inr ''{...}''\<rparr>" "''{...}''", unfolded ep]
  have "fst (TestEndpoint exHttp 0 exApp) =
      \<lparr>success = True,
        message = Plain
          (case Unmarshal exHttp ''{...}'' of
             None \<Rightarrow> ''{...}''
           | Some responseData \<Rightarrow>
               (if extractMessage (effectiveTransformer epA) responseData = [] then ''{...}''
                else extractMessage (effectiveTransformer epA) responseData))\<rparr>"
    using at_up ix req up_resp sel by blast
  then have up: "fst (TestEndpoint exHttp 0 exApp) =
      \<lparr>success = True, message = Plain ''hello''\<rparr>"
    by (simp add: un msg)
  note at_down = TestEndpoint_frame [of exHttpDown 0 exApp _ req
        "Plain ''context deadline exceeded''", unfolded ep]
  have dn: "fst (TestEndpoint exHttpDown 0 exApp) =
       \<lparr>success = False,
         message = Sprintf ''Request failed: %v'' [AErr (Plain ''context deadline exceeded'')]\<rparr>"
    using at_down ix down down_resp by blast
  have fr: "proxy (snd (TestEndpoint exHttp 0 exApp)) = proxy exApp
      \<and> Timeout testClient = 30 * Second"
    using TestEndpoint_frame [of exHttp 0 exApp] by blast
  have rest: "statistics (proxy (snd (TestEndpoint exHttp 0 exApp))) = statistics exProxy
      \<and> listener (proxy (snd (TestEndpoint exHttp 0 exApp))) = listener exProxy
      \<and> Timeout testClient = 30000000000"
    using fr by (simp add: exApp_def Second_def)
  have b1: "\<exists>req. buildTestRequest exHttp (Endpoints (config exApp) ! nat 0) = Inr req
         \<and> ClientDo exHttp testClient req = Inr \<lparr>StatusCode = 200, ReadAll = Inr ''{...}''\<rparr>"
    unfolding ep using req up_resp by blast
  have b2: "\<exists>req. buildTestRequest exHttpDown (Endpoints (config exApp) ! nat 0) = Inr req
         \<and> ClientDo exHttpDown testClient req = Inl (Plain ''context deadline exceeded'')"
    unfolding ep using down down_resp by blast
  show ?thesis
    using ix b1 up b2 dn rest by blast
qed

section \<open>Facts about the process entry point\<close>




section \<open>Claims about the process entry point\<close>




section \<open>Facts about the statistics store\<close>

lemma statOf_RecordAttempt:
  "statOf (RecordAttempt u now s) v =
     (if v = u then (statOf s u)\<lparr>requests := requests (statOf s u) + 1, lastUsed := now\<rparr>
      else statOf s v)"
  by (simp add: statOf_def RecordAttempt_def)

lemma statOf_RecordError:
  "statOf (RecordError u s) v =
     (if v = u then (statOf s u)\<lparr>errors := errors (statOf s u) + 1\<rparr> else statOf s v)"
  by (simp add: statOf_def RecordError_def)

lemma statOf_RecordTokens:
  "statOf (RecordTokens u i out s) v =
     (if v = u then (statOf s u)\<lparr>inputTokens := inputTokens (statOf s u) + i,
                                 outputTokens := outputTokens (statOf s u) + out\<rparr>
      else statOf s v)"
  by (simp add: statOf_def RecordTokens_def)

lemmas statOf_Record = statOf_RecordAttempt statOf_RecordError statOf_RecordTokens

text \<open>
  The invariant that one step keeps: for every name, the errors recorded and the
  attempts still in flight together do not exceed the attempts recorded.
\<close>

lemma step_keeps_balance:
  assumes "step ev e = Some e'"
    and "\<forall>u. errors (statOf (stats e) u) + inflight e u \<le> requests (statOf (stats e) u)"
  shows "errors (statOf (stats e') v) + inflight e' v \<le> requests (statOf (stats e') v)"
proof -
  have b: "errors (statOf (stats e) v) + inflight e v \<le> requests (statOf (stats e) v)"
    using assms(2) by blast
  show ?thesis
  proof (cases ev)
    case (Attempt u now)
    then show ?thesis using assms(1) b by (auto simp: statOf_Record)
  next
    case (Failed u)
    then show ?thesis using assms(1) b by (auto simp: statOf_Record split: if_splits)
  next
    case (Succeeded u i out)
    then show ?thesis using assms(1) b by (auto simp: statOf_Record split: if_splits)
  next
    case (Abandoned u)
    then show ?thesis using assms(1) b by (auto split: if_splits)
  next
    case Restarted
    then show ?thesis using assms(1) b by auto
  next
    case RestartedEmpty
    then show ?thesis using assms(1) by (auto simp: engine0_def statOf_def)
  qed
qed

lemma run_keeps_balance:
  assumes "run evs e = Some e'"
    and "\<forall>u. errors (statOf (stats e) u) + inflight e u \<le> requests (statOf (stats e) u)"
  shows "\<forall>u. errors (statOf (stats e') u) + inflight e' u \<le> requests (statOf (stats e') u)"
  using assms
proof (induction evs arbitrary: e)
  case Nil
  then show ?case by simp
next
  case (Cons ev evs)
  from Cons.prems(1) obtain e1 where s: "step ev e = Some e1" and r: "run evs e1 = Some e'"
    by (auto split: option.splits)
  have "\<forall>u. errors (statOf (stats e1) u) + inflight e1 u \<le> requests (statOf (stats e1) u)"
    using step_keeps_balance [OF s Cons.prems(2)] by blast
  then show ?case by (rule Cons.IH [OF r])
qed

lemma step_requests_bound:
  assumes "step ev e = Some e'"
  shows "requests (statOf (stats e') v) \<le> requests (statOf (stats e) v) + 1"
proof (cases ev)
  case RestartedEmpty
  then show ?thesis using assms by (auto simp: engine0_def statOf_def)
qed (use assms in \<open>auto simp: statOf_Record split: if_splits\<close>)

lemma run_requests_bound:
  assumes "run evs e = Some e'"
  shows "requests (statOf (stats e') v) \<le> requests (statOf (stats e) v) + length evs"
  using assms
proof (induction evs arbitrary: e)
  case Nil
  then show ?case by simp
next
  case (Cons ev evs)
  from Cons.prems obtain e1 where s: "step ev e = Some e1" and r: "run evs e1 = Some e'"
    by (auto split: option.splits)
  show ?case
    using step_requests_bound [OF s, of v] Cons.IH [OF r] by simp
qed

lemma fold_addStats_success:
  assumes "\<forall>x \<in> set eps. errors x \<le> requests x"
  shows "totalSuccess t \<le> totalSuccess (fold addStats eps t)"
  using assms
proof (induction eps arbitrary: t)
  case Nil
  then show ?case by simp
next
  case (Cons x xs)
  have "totalSuccess t \<le> totalSuccess (addStats x t)"
    using Cons.prems by (simp add: addStats_def)
  also have "\<dots> \<le> totalSuccess (fold addStats xs (addStats x t))"
    using Cons.prems by (intro Cons.IH) simp
  finally show ?case by simp
qed

section \<open>Claim about the statistics store\<close>

text \<open>
  C7. In every state that the engine reaches from the empty store by recording
  attempts and ending them, for every name in the store the error counter is at most
  the request counter. So the success total that the front end computes as the sum of
  requests minus errors is not negative. The request counter is at most the number of
  events, so it stays within 64 bits in every run of fewer than \<open>2^64\<close> events.
\<close>

theorem stats_errors_le_requests:
  assumes "run evs engine0 = Some e"
  shows "(\<forall>name st. stats e name = Some st \<longrightarrow>
            errors st \<le> requests st \<and> requests st \<le> length evs)
       \<and> (\<forall>eps. set eps \<subseteq> ran (stats e) \<longrightarrow> 0 \<le> totalSuccess (loadStats eps))"
proof -
  have init: "\<forall>u. errors (statOf (stats engine0) u) + inflight engine0 u
                \<le> requests (statOf (stats engine0) u)"
    by (simp add: engine0_def statOf_def)
  have bal: "\<forall>u. errors (statOf (stats e) u) + inflight e u \<le> requests (statOf (stats e) u)"
    by (rule run_keeps_balance [OF assms init])
  have per: "errors st \<le> requests st \<and> requests st \<le> length evs"
    if "stats e name = Some st" for name st
  proof -
    have st: "statOf (stats e) name = st"
      using that by (simp add: statOf_def)
    have "errors st \<le> requests st"
      using bal [rule_format, of name] st by simp
    moreover have "requests st \<le> length evs"
      using run_requests_bound [OF assms, of name] st by (simp add: engine0_def statOf_def)
    ultimately show ?thesis by simp
  qed
  have tot: "0 \<le> totalSuccess (loadStats eps)" if "set eps \<subseteq> ran (stats e)" for eps
  proof -
    have "\<forall>x \<in> set eps. errors x \<le> requests x"
      using that per by (auto simp: ran_def)
    then have "totalSuccess \<lparr>totalSuccess = 0, totalFailed = 0, totalInputTokens = 0,
                 totalOutputTokens = 0\<rparr>
               \<le> totalSuccess (loadStats eps)"
      unfolding loadStats_def by (rule fold_addStats_success)
    then show ?thesis by simp
  qed
  show ?thesis
    using per tot by blast
qed

theorem stats_errors_le_requests_witness:
  "\<exists>e stA stB. run exEvents engine0 = Some e
     \<and> stats e ''A'' = Some stA \<and> requests stA = 3 \<and> errors stA = 2 \<and> errors stA \<le> requests stA
     \<and> stats e ''B'' = Some stB \<and> requests stB = 1 \<and> errors stB = 0 \<and> errors stB \<le> requests stB
     \<and> 0 \<le> totalSuccess (loadStats [stA, stB])"
proof -
  obtain e where e: "run exEvents engine0 = Some e"
    by (simp add: exEvents_def engine0_def)
  have A: "map_option (\<lambda>e. map_option (\<lambda>st. (requests st, errors st)) (stats e ''A''))
             (run exEvents engine0) = Some (Some (3, 2))"
    by (simp add: exEvents_def engine0_def RecordAttempt_def RecordError_def RecordTokens_def
        statOf_def)
  have B: "map_option (\<lambda>e. map_option (\<lambda>st. (requests st, errors st)) (stats e ''B''))
             (run exEvents engine0) = Some (Some (1, 0))"
    by (simp add: exEvents_def engine0_def RecordAttempt_def RecordError_def RecordTokens_def
        statOf_def)
  from A e obtain stA where stA: "stats e ''A'' = Some stA" "requests stA = 3" "errors stA = 2"
    by auto
  from B e obtain stB where stB: "stats e ''B'' = Some stB" "requests stB = 1" "errors stB = 0"
    by auto
  have in_ran: "set [stA, stB] \<subseteq> ran (stats e)"
    using stA(1) stB(1) by (auto simp: ran_def)
  have "errors stA \<le> requests stA" "errors stB \<le> requests stB"
    "0 \<le> totalSuccess (loadStats [stA, stB])"
    using stats_errors_le_requests [OF e] stA(1) stB(1) in_ran by blast+
  then show ?thesis
    using e stA stB by blast
qed

end
